theory Spec2Isabelle
  imports Main
begin

text \<open>
  A model of the scraper (\<open>scrape_data.py\<close>) and of the dashboard (\<open>app.py\<close>) of the
  brand reputation monitor. The three pagination drivers are functions of the server
  they talk to; what the libraries do (HTML selection, URL handling, \<open>float\<close>, the
  classifier) is a parameter or a field of the input, and \<open>strptime\<close>, \<open>str.strip\<close>
  and \<open>drop_duplicates\<close> are modelled as far as the code uses them.
\<close>

section \<open>Python values used by the scraper and the dashboard\<close>

text \<open>
  Exceptions of the source are values of \<open>py_error\<close>; a function of the source that can
  raise returns \<open>py_error + 'a\<close>, with \<open>Inl\<close> for the exception.
\<close>

datatype py_error = ValueError | KeyError

subsection \<open>Strings\<close>

text \<open>
  Strings are lists of characters. The character classes below are those of Python on
  the ASCII range: \<open>str.isspace\<close> holds for tab, line feed, vertical tab, form feed,
  carriage return, the four separators 28 to 31 and the space.
\<close>

definition isspace :: "char \<Rightarrow> bool" where
  "isspace c = ((of_char c :: nat) \<in> {9, 10, 11, 12, 13, 28, 29, 30, 31, 32})"

definition isdigit :: "char \<Rightarrow> bool" where
  "isdigit c = (48 \<le> (of_char c :: nat) \<and> (of_char c :: nat) \<le> 57)"

definition digit_val :: "char \<Rightarrow> int" where
  "digit_val c = int (of_char c) - 48"

definition digit_chr :: "int \<Rightarrow> char" where
  "digit_chr d = char_of (48 + nat d)"

definition lower :: "char \<Rightarrow> char" where
  "lower c = (if 65 \<le> (of_char c :: nat) \<and> (of_char c :: nat) \<le> 90
              then char_of ((of_char c :: nat) + 32) else c)"

text \<open>\<open>s.strip()\<close>: leading and trailing whitespace removed.\<close>

definition strip :: "string \<Rightarrow> string" where
  "strip s = rev (dropWhile isspace (rev (dropWhile isspace s)))"

text \<open>\<open>s.replace(c, "")\<close> for a one-character \<open>c\<close>: every occurrence removed.\<close>

definition replace_del :: "char \<Rightarrow> string \<Rightarrow> string" where
  "replace_del c s = filter (\<lambda>x. x \<noteq> c) s"

text \<open>Truthiness of an optional string: \<open>None\<close> and \<open>""\<close> are false.\<close>

definition truthy :: "string option \<Rightarrow> bool" where
  "truthy v = (case v of None \<Rightarrow> False | Some s \<Rightarrow> s \<noteq> [])"

subsection \<open>Calendar dates\<close>

text \<open>
  A \<open>datetime\<close> built by \<open>strptime\<close> from a format with no time directive has time of
  day 00:00:00, and \<open>replace\<close> on year, month and day keeps it; the model carries the
  calendar fields only.
\<close>

record pydate =
  year :: int
  month :: int
  day :: int

definition isleap :: "int \<Rightarrow> bool" where
  "isleap y = (y mod 4 = 0 \<and> (y mod 100 \<noteq> 0 \<or> y mod 400 = 0))"

definition days_in_month :: "int \<Rightarrow> int \<Rightarrow> int" where
  "days_in_month y m =
     (if m = 2 then (if isleap y then 29 else 28)
      else if m \<in> {4, 6, 9, 11} then 30 else 31)"

text \<open>The constructor \<open>datetime(y, m, d)\<close> raises \<open>ValueError\<close> outside the calendar.\<close>

definition mk_date :: "int \<Rightarrow> int \<Rightarrow> int \<Rightarrow> py_error + pydate" where
  "mk_date y m d =
     (if 1 \<le> y \<and> y \<le> 9999 \<and> 1 \<le> m \<and> m \<le> 12 \<and> 1 \<le> d \<and> d \<le> days_in_month y m
      then Inr \<lparr>year = y, month = m, day = d\<rparr> else Inl ValueError)"

text \<open>The group \<open>\d\d\d\d\<close> of the directive \<open>%Y\<close>, read by \<open>int\<close>.\<close>

definition year_of :: "string \<Rightarrow> int option" where
  "year_of s =
     (case s of
        [a, b, c, d] \<Rightarrow>
          (if isdigit a \<and> isdigit b \<and> isdigit c \<and> isdigit d
           then Some (1000 * digit_val a + 100 * digit_val b + 10 * digit_val c + digit_val d)
           else None)
      | _ \<Rightarrow> None)"

text \<open>
  The abbreviated month names of the C locale, as the directive \<open>%b\<close> matches them
  (the pattern is compiled with \<open>IGNORECASE\<close>, the match is lowered before the lookup).
\<close>

definition a_month :: "string list" where
  "a_month = [''jan'', ''feb'', ''mar'', ''apr'', ''may'', ''jun'',
              ''jul'', ''aug'', ''sep'', ''oct'', ''nov'', ''dec'']"

fun index_of :: "'a list \<Rightarrow> 'a \<Rightarrow> nat option" where
  "index_of [] x = None"
| "index_of (y # ys) x = (if x = y then Some 0 else map_option Suc (index_of ys x))"

text \<open>
  \<open>datetime.strptime(s, "%b %Y")\<close>: the pattern is the month name, \<open>\s+\<close> and four
  digits, and the whole string has to be consumed; the day defaults to 1.
\<close>

definition strptime_bY :: "string \<Rightarrow> py_error + pydate" where
  "strptime_bY s =
     (case index_of a_month (map lower (take 3 s)) of
        None \<Rightarrow> Inl ValueError
      | Some i \<Rightarrow>
          (let rest = drop 3 s in
           if takeWhile isspace rest = [] then Inl ValueError
           else (case year_of (dropWhile isspace rest) of
                   None \<Rightarrow> Inl ValueError
                 | Some y \<Rightarrow> mk_date y (int i + 1) 1)))"

section \<open>Dashboard: the month range\<close>

text \<open>\<open>dt.replace(year=y, month=m, day=d)\<close> builds a new value and validates it.\<close>

definition replace_ymd :: "pydate \<Rightarrow> int \<Rightarrow> int \<Rightarrow> int \<Rightarrow> py_error + pydate" where
  "replace_ymd dt y m d = mk_date y m d"

definition month_label_to_range :: "string \<Rightarrow> py_error + (pydate \<times> pydate)" where
  "month_label_to_range label =
     (case strptime_bY label of
        Inl e \<Rightarrow> Inl e
      | Inr dt \<Rightarrow>
          (case replace_ymd dt (year dt) (month dt) 1 of
             Inl e \<Rightarrow> Inl e
           | Inr start \<Rightarrow>
               (case (if month dt = 12 then replace_ymd dt (year dt + 1) 1 1
                      else replace_ymd dt (year dt) (month dt + 1) 1) of
                  Inl e \<Rightarrow> Inl e
                | Inr end' \<Rightarrow> Inr (start, end'))))"

text \<open>The range as the specification words it.\<close>

definition first_of_month :: "int \<Rightarrow> int \<Rightarrow> pydate" where
  "first_of_month y m = \<lparr>year = y, month = m, day = 1\<rparr>"

definition first_of_next_month :: "int \<Rightarrow> int \<Rightarrow> pydate" where
  "first_of_next_month y m =
     (if m = 12 then \<lparr>year = y + 1, month = 1, day = 1\<rparr>
      else \<lparr>year = y, month = m + 1, day = 1\<rparr>)"


section \<open>Scraper: shared parts\<close>

definition BASE :: string where
  "BASE = ''https://web-scraping.dev''"

text \<open>
  What a request returns: the status code, and the body as the parser of the driver
  reads it (the elements selected from the HTML document, or the decoded JSON object).
\<close>

record 'b response =
  status_code :: int
  body :: 'b

text \<open>
  Library functions the drivers call and the model leaves open: \<open>urljoin\<close>,
  the \<open>path\<close> of \<open>urlparse\<close>, and \<open>float\<close> on a string (\<open>None\<close> when it raises).
\<close>

record 'f lib =
  urljoin :: "string \<Rightarrow> string \<Rightarrow> string"
  urlparse_path :: "string \<Rightarrow> string"
  py_float :: "string \<Rightarrow> 'f option"

subsection \<open>\<open>_parse_date\<close>\<close>

text \<open>The groups of \<open>%m\<close> and \<open>%d\<close>: \<open>1[0-2]|0[1-9]|[1-9]\<close> and
  \<open>3[0-1]|[1-2]\d|0[1-9]|[1-9]| [1-9]\<close>.\<close>

definition isdigit19 :: "char \<Rightarrow> bool" where
  "isdigit19 c = (49 \<le> (of_char c :: nat) \<and> (of_char c :: nat) \<le> 57)"

definition month_of :: "string \<Rightarrow> int option" where
  "month_of s =
     (case s of
        [a] \<Rightarrow> (if isdigit19 a then Some (digit_val a) else None)
      | [a, b] \<Rightarrow>
          (if a = CHR ''1'' \<and> b \<in> {CHR ''0'', CHR ''1'', CHR ''2''} then Some (10 + digit_val b)
           else if a = CHR ''0'' \<and> isdigit19 b then Some (digit_val b)
           else None)
      | _ \<Rightarrow> None)"

definition day_of :: "string \<Rightarrow> int option" where
  "day_of s =
     (case s of
        [a] \<Rightarrow> (if isdigit19 a then Some (digit_val a) else None)
      | [a, b] \<Rightarrow>
          (if a = CHR ''3'' \<and> b \<in> {CHR ''0'', CHR ''1''} then Some (30 + digit_val b)
           else if a \<in> {CHR ''1'', CHR ''2''} \<and> isdigit b then Some (10 * digit_val a + digit_val b)
           else if a = CHR ''0'' \<and> isdigit19 b then Some (digit_val b)
           else if a = CHR '' '' \<and> isdigit19 b then Some (digit_val b)
           else None)
      | _ \<Rightarrow> None)"

text \<open>
  \<open>datetime.strptime(s, "%Y-%m-%d")\<close>: four digits, a hyphen, the month group, a
  hyphen, the day group, and nothing left over; then the date is validated.
\<close>

definition strptime_ymd :: "string \<Rightarrow> py_error + pydate" where
  "strptime_ymd s =
     (case year_of (take 4 s) of
        None \<Rightarrow> Inl ValueError
      | Some y \<Rightarrow>
          (case drop 4 s of
             [] \<Rightarrow> Inl ValueError
           | h # rest \<Rightarrow>
               if h \<noteq> CHR ''-'' then Inl ValueError
               else (case month_of (takeWhile (\<lambda>c. c \<noteq> CHR ''-'') rest) of
                       None \<Rightarrow> Inl ValueError
                     | Some m \<Rightarrow>
                         (case dropWhile (\<lambda>c. c \<noteq> CHR ''-'') rest of
                            [] \<Rightarrow> Inl ValueError
                          | _ # ds \<Rightarrow>
                              (case day_of ds of
                                 None \<Rightarrow> Inl ValueError
                               | Some d \<Rightarrow> mk_date y m d)))))"

text \<open>\<open>_parse_date\<close>: \<open>None\<close> when \<open>strptime\<close> raises.\<close>

definition parse_date :: "string \<Rightarrow> pydate option" where
  "parse_date date_str =
     (case strptime_ymd (strip date_str) of Inl e \<Rightarrow> None | Inr dt \<Rightarrow> Some dt)"

text \<open>\<open>dt.date().isoformat()\<close>: \<open>YYYY-MM-DD\<close>, zero padded.\<close>

definition pad2 :: "int \<Rightarrow> string" where
  "pad2 n = [digit_chr (n div 10 mod 10), digit_chr (n mod 10)]"

definition isoformat :: "pydate \<Rightarrow> string" where
  "isoformat dt =
     pad2 (year dt div 100) @ pad2 (year dt mod 100) @ ''-'' @ pad2 (month dt) @ ''-'' @ pad2 (day dt)"

subsection \<open>\<open>DataFrame(rows).drop_duplicates(subset=...).to_dict(orient="records")\<close>\<close>

text \<open>
  \<open>duplicated\<close> with the default \<open>keep="first"\<close> marks a row when an earlier row has
  the same values in the subset columns, and \<open>drop_duplicates\<close> keeps the unmarked rows
  in order. \<open>drop_duplicates\<close> starts with \<open>if self.empty: return self.copy()\<close>, so a
  frame built from no rows comes back as it is, and \<open>to_dict\<close> turns it into the empty
  list. The subset columns of the two callers hold strings only; what pandas does to the
  other cells (a missing value in a numeric column becomes NaN) is not modelled.
\<close>

fun keep_first :: "('a \<Rightarrow> 'k) \<Rightarrow> 'k set \<Rightarrow> 'a list \<Rightarrow> 'a list" where
  "keep_first key seen [] = []"
| "keep_first key seen (x # xs) =
     (if key x \<in> seen then keep_first key seen xs
      else x # keep_first key (insert (key x) seen) xs)"

definition drop_duplicates :: "('a \<Rightarrow> 'k) \<Rightarrow> 'a list \<Rightarrow> 'a list" where
  "drop_duplicates key rows = (if rows = [] then [] else keep_first key {} rows)"

section \<open>Scraper: products\<close>

record 'f product =
  title :: string
  url :: string
  page :: int
  image_url :: "string option"
  price :: "'f option"
  description :: "string option"

text \<open>
  One \<open>div.row.product\<close> element, as the selectors of the loop body see it:
  the \<open>href\<close> and stripped text of the first \<open>.description h3 a[href]\<close>, the \<open>src\<close> of the
  first \<open>.thumbnail img[src]\<close>, the text of \<open>.short-description\<close> and of
  \<open>.price-wrap .price\<close>; \<open>None\<close> where \<open>select_one\<close> finds nothing.
\<close>

record row =
  a_href :: "string option"
  a_text :: string
  img_src :: "string option"
  short_description :: "string option"
  price_text :: "string option"

text \<open>\<open>re.search(r"^/product/\d+/?$", path)\<close>; \<open>$\<close> also matches before a final newline.\<close>

definition product_path :: "string \<Rightarrow> bool" where
  "product_path path =
     (take 9 path = ''/product/'' \<and>
      takeWhile isdigit (drop 9 path) \<noteq> [] \<and>
      dropWhile isdigit (drop 9 path) \<in> {[], ''/'', [CHR 0x0A], [CHR ''/'', CHR 0x0A]})"

definition clean_price :: "string \<Rightarrow> string" where
  "clean_price txt = replace_del CHR '','' (replace_del CHR ''$'' txt)"

record 'f pstate =
  ps_products :: "'f product list"
  seen_urls :: "string set"
  ps_fetched :: "int list"

text \<open>
  The body of \<open>for row in rows\<close>, in two parts: the record a row yields given the URLs
  seen so far (\<open>None\<close> where the body reaches a \<open>continue\<close>), and the update of
  \<open>seen_urls\<close>, \<open>products\<close> and \<open>page_added\<close> (the second component).
\<close>

definition row_product :: "'f lib \<Rightarrow> int \<Rightarrow> string set \<Rightarrow> row \<Rightarrow> 'f product option" where
  "row_product L pg seen r =
     (case a_href r of
        None \<Rightarrow> None
      | Some href \<Rightarrow>
          (let u = urljoin L BASE (strip href) in
           if \<not> product_path (urlparse_path L u) then None
           else if u \<in> seen then None
           else
             (let img = (case img_src r of
                           None \<Rightarrow> None
                         | Some src \<Rightarrow> if src = [] then None else Some (urljoin L BASE (strip src)));
                  pr = (case price_text r of
                          None \<Rightarrow> None
                        | Some t \<Rightarrow> py_float L (clean_price t))
              in Some \<lparr>title = a_text r, url = u, page = pg, image_url = img,
                       price = pr, description = short_description r\<rparr>)))"

definition scan_row :: "'f lib \<Rightarrow> int \<Rightarrow> 'f pstate \<times> nat \<Rightarrow> row \<Rightarrow> 'f pstate \<times> nat" where
  "scan_row L pg acc r =
     (case row_product L pg (seen_urls (fst acc)) r of
        None \<Rightarrow> acc
      | Some p \<Rightarrow>
          ((fst acc)\<lparr>seen_urls := insert (url p) (seen_urls (fst acc)),
                     ps_products := ps_products (fst acc) @ [p]\<rparr>,
           Suc (snd acc)))"

text \<open>
  The loop \<open>for page in range(1, max_pages + 1)\<close>, over the pages still to visit.
  \<open>ps_fetched\<close> logs the pages requested.
\<close>

fun products_loop ::
  "'f lib \<Rightarrow> (int \<Rightarrow> row list response) \<Rightarrow> int list \<Rightarrow> 'f pstate \<Rightarrow> 'f pstate" where
  "products_loop L get [] st = st"
| "products_loop L get (pg # pages) st =
     (let r = get pg;
          st1 = st\<lparr>ps_fetched := ps_fetched st @ [pg]\<rparr>
      in if status_code r \<noteq> 200 then st1
         else if body r = [] then st1
         else (let res = foldl (scan_row L pg) (st1, 0) (body r)
               in if snd res = 0 then fst res
                  else products_loop L get pages (fst res)))"

definition products_run ::
  "'f lib \<Rightarrow> (int \<Rightarrow> row list response) \<Rightarrow> int \<Rightarrow> 'f pstate" where
  "products_run L get max_pages =
     products_loop L get [1..max_pages] \<lparr>ps_products = [], seen_urls = {}, ps_fetched = []\<rparr>"

definition scrape_products_html ::
  "'f lib \<Rightarrow> (int \<Rightarrow> row list response) \<Rightarrow> int \<Rightarrow> 'f product list" where
  "scrape_products_html L get max_pages = ps_products (products_run L get max_pages)"



section \<open>Scraper: testimonials\<close>

text \<open>
  One \<open>div.testimonial\<close> element: the \<open>username\<close> attribute of its \<open>identicon-svg\<close>
  (if any), the text of \<open>p.text\<close> (if any), the number of \<open>.rating svg\<close> elements.
\<close>

record card =
  c_username :: "string option"
  c_text :: "string option"
  c_stars :: nat

record testimonial =
  t_page :: int
  idx :: nat
  username :: "string option"
  t_text :: string
  t_rating :: nat

definition scan_cards :: "int \<Rightarrow> card list \<Rightarrow> testimonial list" where
  "scan_cards pg cards =
     concat (map (\<lambda>(i, c).
        (case c_text c of
           None \<Rightarrow> []
         | Some t \<Rightarrow> if t = [] then []
                     else [\<lparr>t_page = pg, idx = i, username = c_username c, t_text = t,
                            t_rating = c_stars c\<rparr>]))
        (zip [0..<length cards] cards))"

fun testimonials_loop ::
  "(int \<Rightarrow> card list response) \<Rightarrow> int list \<Rightarrow> testimonial list \<Rightarrow> testimonial list" where
  "testimonials_loop get [] acc = acc"
| "testimonials_loop get (pg # pages) acc =
     (let r = get pg
      in if status_code r \<noteq> 200 then acc
         else if body r = [] then acc
         else testimonials_loop get pages (acc @ scan_cards pg (body r)))"

definition scrape_testimonials_api ::
  "(int \<Rightarrow> card list response) \<Rightarrow> int \<Rightarrow> testimonial list" where
  "scrape_testimonials_api get max_pages =
     drop_duplicates t_text (testimonials_loop get [1..max_pages] [])"

section \<open>Scraper: reviews\<close>

text \<open>
  The decoded GraphQL response, typed by the query. A key the code reads with
  \<open>.get\<close> may be missing or null: \<open>None\<close>. \<open>edges\<close> is the list under
  \<open>data.reviews.edges\<close>, empty when a key on the way is missing (the defaults of
  the \<open>.get\<close> calls); \<open>has_errors\<close> is \<open>"errors" in data\<close>.
\<close>

record gql_node =
  n_rid :: "string option"
  n_text :: "string option"
  n_rating :: "int option"
  n_date :: "string option"

record gql_edge =
  e_node :: "gql_node option"
  e_cursor :: "string option"

record gql_body =
  has_errors :: bool
  edges :: "gql_edge list"
  hasNextPage :: "bool option"
  endCursor :: "string option"

record gql_request =
  rq_first :: int
  rq_after :: "string option"

record review =
  rid :: "string option"
  r_date :: string
  r_text :: string
  r_rating :: "int option"

definition empty_node :: gql_node where
  "empty_node = \<lparr>n_rid = None, n_text = None, n_rating = None, n_date = None\<rparr>"

text \<open>The body of \<open>for edge in edges\<close>: the records it appends (none or one).\<close>

definition scan_edge :: "gql_edge \<Rightarrow> review list" where
  "scan_edge e =
     (let node = (case e_node e of None \<Rightarrow> empty_node | Some n \<Rightarrow> n) in
      case n_date node of
        None \<Rightarrow> []
      | Some date_str \<Rightarrow>
          (case n_text node of
             None \<Rightarrow> []
           | Some txt \<Rightarrow>
               if date_str = [] \<or> txt = [] then []
               else (case parse_date date_str of
                       None \<Rightarrow> []
                     | Some dt \<Rightarrow>
                         [\<lparr>rid = n_rid node, r_date = isoformat dt, r_text = strip txt,
                           r_rating = n_rating node\<rparr>])))"

record rstate =
  all_reviews :: "review list"
  cur_after :: "string option"
  rs_log :: "(gql_request \<times> gql_body response) list"

text \<open>\<open>page_info.get("endCursor") or edges[-1].get("cursor")\<close>\<close>

definition next_after :: "gql_body \<Rightarrow> string option" where
  "next_after b = (if truthy (endCursor b) then endCursor b else e_cursor (last (edges b)))"

text \<open>
  The loop \<open>for _ in range(max_pages)\<close>, over the number of rounds left. The server is
  a function of the number of earlier requests and of the request; \<open>rs_log\<close> logs each
  request with its response.
\<close>

fun reviews_loop ::
  "(nat \<Rightarrow> gql_request \<Rightarrow> gql_body response) \<Rightarrow> int \<Rightarrow> nat \<Rightarrow> rstate \<Rightarrow> rstate" where
  "reviews_loop post first 0 st = st"
| "reviews_loop post first (Suc n) st =
     (let rq = \<lparr>rq_first = first, rq_after = cur_after st\<rparr>;
          r = post (length (rs_log st)) rq;
          st1 = st\<lparr>rs_log := rs_log st @ [(rq, r)]\<rparr>
      in if status_code r \<noteq> 200 then st1
         else if has_errors (body r) then st1
         else if edges (body r) = [] then st1
         else (let st2 = st1\<lparr>all_reviews :=
                              all_reviews st1 @ concat (map scan_edge (edges (body r)))\<rparr>
               in if hasNextPage (body r) \<noteq> Some True then st2
                  else reviews_loop post first n (st2\<lparr>cur_after := next_after (body r)\<rparr>)))"

definition reviews_run ::
  "(nat \<Rightarrow> gql_request \<Rightarrow> gql_body response) \<Rightarrow> int \<Rightarrow> int \<Rightarrow> rstate" where
  "reviews_run post max_pages first =
     reviews_loop post first (nat max_pages) \<lparr>all_reviews = [], cur_after = None, rs_log = []\<rparr>"

definition review_key :: "review \<Rightarrow> string \<times> string" where
  "review_key r = (r_date r, r_text r)"

definition scrape_reviews_api ::
  "(nat \<Rightarrow> gql_request \<Rightarrow> gql_body response) \<Rightarrow> int \<Rightarrow> int \<Rightarrow> review list" where
  "scrape_reviews_api post max_pages first =
     drop_duplicates review_key (all_reviews (reviews_run post max_pages first))"

section \<open>Scraper: the snapshot\<close>

record ('f, 't) snapshot =
  products :: "'f product list"
  testimonials :: "testimonial list"
  reviews :: "review list"
  scraped_at :: 't
  source :: string

text \<open>The three endpoints of the site, one function each.\<close>

record upstream =
  products_pages :: "int \<Rightarrow> row list response"
  testimonials_pages :: "int \<Rightarrow> card list response"
  graphql :: "nat \<Rightarrow> gql_request \<Rightarrow> gql_body response"

text \<open>\<open>main\<close> of the scraper: the dictionary it dumps; \<open>now\<close> is the clock reading.\<close>

definition scrape_main :: "'f lib \<Rightarrow> upstream \<Rightarrow> 't \<Rightarrow> ('f, 't) snapshot" where
  "scrape_main L up now =
     \<lparr>products = scrape_products_html L (products_pages up) 50,
      testimonials = scrape_testimonials_api (testimonials_pages up) 50,
      reviews = scrape_reviews_api (graphql up) 50 20,
      scraped_at = now,
      source = BASE\<rparr>"

section \<open>Dashboard\<close>

text \<open>
  The loaded snapshot: a top-level key may be missing (\<open>None\<close>). The records are those
  the scraper writes.
\<close>

record 'f data =
  d_products :: "'f product list option"
  d_testimonials :: "testimonial list option"
  d_reviews :: "review list option"

datatype view = Products | Testimonials | Reviews

text \<open>
  What a render shows, one constructor for each kind of call on the display library.
  \<open>PriceLine\<close>, \<open>UserHeading\<close>, \<open>Stars\<close> and \<open>ShowingRange\<close> carry the values their
  format strings are built from; \<open>Report\<close> carries the rows from which the table, the
  counts per label and the confidence means are computed and shown.
\<close>

datatype ('f, 'c) ui =
    Title string | Caption string | Header string | Subheader string
  | Markdown string | Image string | Write string | Divider
  | PriceLine "'f option" | UserHeading "string option" | Stars nat
  | Warning string | Info string | Metric string nat
  | ShowingRange pydate pydate
  | Report "(review \<times> string \<times> 'c) list"

text \<open>
  What the reviews view takes from outside: \<open>pd.to_datetime\<close> on one date string
  (\<open>None\<close> for a value it coerces to NaT), the label chosen on the slider, and the
  classifier (a label and a score for each text).
\<close>

record 'c app_env =
  to_datetime :: "string \<Rightarrow> pydate option"
  selected :: string
  clf :: "string list \<Rightarrow> (string \<times> 'c) list"

definition date_le :: "pydate \<Rightarrow> pydate \<Rightarrow> bool" where
  "date_le a b =
     (year a < year b \<or>
      (year a = year b \<and> (month a < month b \<or> (month a = month b \<and> day a \<le> day b))))"

definition date_lt :: "pydate \<Rightarrow> pydate \<Rightarrow> bool" where
  "date_lt a b =
     (year a < year b \<or>
      (year a = year b \<and> (month a < month b \<or> (month a = month b \<and> day a < day b))))"

text \<open>\<open>series.map({...})\<close> gives NaN (\<open>None\<close>) off the dictionary; \<open>fillna(other)\<close> fills
  each NaN from the same position of \<open>other\<close>.\<close>

definition series_map :: "('a \<rightharpoonup> 'b) \<Rightarrow> 'a list \<Rightarrow> 'b option list" where
  "series_map d xs = map d xs"

definition fillna :: "'a option list \<Rightarrow> 'a list \<Rightarrow> 'a list" where
  "fillna ys other = map (\<lambda>(y, x). case y of None \<Rightarrow> x | Some v \<Rightarrow> v) (zip ys other)"

definition normalize_sentiment :: "string list \<Rightarrow> string list" where
  "normalize_sentiment sentiment =
     fillna (series_map (map_of [(''POSITIVE'', ''Positive''), (''NEGATIVE'', ''Negative'')])
               sentiment)
            sentiment"

definition show_product :: "'f product \<Rightarrow> ('f, 'c) ui list" where
  "show_product p =
     [Markdown ''---''] @
     (case image_url p of None \<Rightarrow> [] | Some u \<Rightarrow> if u = [] then [] else [Image u]) @
     [Subheader (title p)] @
     (case description p of None \<Rightarrow> [] | Some d \<Rightarrow> if d = [] then [] else [Write d]) @
     [PriceLine (price p)]"

definition show_testimonial :: "testimonial \<Rightarrow> ('f, 'c) ui list" where
  "show_testimonial t = [UserHeading (username t), Write (t_text t), Stars (t_rating t), Divider]"

definition show_reviews :: "'c app_env \<Rightarrow> review list \<Rightarrow> py_error + ('f, 'c) ui list" where
  "show_reviews E df =
     (if df = [] then Inr [Warning ''No reviews found in data.json'']
      else
        (let dated = concat (map (\<lambda>r. case to_datetime E (r_date r) of
                                           None \<Rightarrow> [] | Some d \<Rightarrow> [(r, d)]) df);
             df_2023 = filter (\<lambda>(r, d). year d = 2023) dated
         in if df_2023 = []
            then Inr [Warning ''No 2023 reviews found. Check your scraper output.'']
            else
              (case month_label_to_range (selected E) of
                 Inl e \<Rightarrow> Inl e
               | Inr (start, end') \<Rightarrow>
                   (let filtered = filter (\<lambda>(r, d). date_le start d \<and> date_lt d end') df_2023;
                        head = [Metric ''Reviews in month'' (length filtered),
                                Metric ''All 2023 reviews'' (length df_2023),
                                ShowingRange start end']
                    in if filtered = [] then Inr (head @ [Info ''No reviews in this month.''])
                       else
                         (let preds = clf E (map (\<lambda>(r, d). r_text r) filtered)
                          in if length preds \<noteq> length filtered then Inl ValueError
                             else Inr (head @
                                    [Report (zip (map fst filtered)
                                               (zip (normalize_sentiment (map fst preds))
                                                    (map snd preds)))]))))))"

text \<open>\<open>main\<close> of the dashboard, for one choice on the sidebar.\<close>

definition app_main ::
  "'c app_env \<Rightarrow> 'f data \<Rightarrow> view \<Rightarrow> py_error + ('f, 'c) ui list" where
  "app_main E dat sec =
     (let top = [Title ''Brand Reputation Monitor (2023)'',
                 Caption ''Scraped from web-scraping.dev - Sentiment: Hugging Face Transformers'']
      in case sec of
           Products \<Rightarrow>
             (case d_products dat of
                None \<Rightarrow> Inl KeyError
              | Some ps \<Rightarrow> Inr (top @ [Header ''Products''] @ concat (map show_product ps)))
         | Testimonials \<Rightarrow>
             Inr (top @ [Subheader ''Testimonials''] @
                  concat (map show_testimonial
                            (case d_testimonials dat of None \<Rightarrow> [] | Some ts \<Rightarrow> ts)))
         | Reviews \<Rightarrow>
             (case show_reviews E (case d_reviews dat of None \<Rightarrow> [] | Some rs \<Rightarrow> rs) of
                Inl e \<Rightarrow> Inl e
              | Inr out \<Rightarrow>
                  Inr (top @ [Subheader ''Reviews (2023) + Sentiment Analysis''] @ out)))"

text \<open>A date of the calendar, as the constructor of \<open>datetime\<close> accepts it.\<close>

definition valid_date :: "pydate \<Rightarrow> bool" where
  "valid_date dt =
     (1 \<le> year dt \<and> year dt \<le> 9999 \<and> 1 \<le> month dt \<and> month dt \<le> 12
      \<and> 1 \<le> day dt \<and> day dt \<le> days_in_month (year dt) (month dt))"

section \<open>Notions used to state the properties of the review driver\<close>

text \<open>
  The edges the loop has read, in order: those of the logged responses with status 200
  and no \<open>errors\<close> key. An edge has date and text when its node has both, non-empty.
\<close>

definition received_edges :: "(gql_request \<times> gql_body response) list \<Rightarrow> gql_edge list" where
  "received_edges lg =
     concat (map (\<lambda>(rq, r). if status_code r = 200 \<and> \<not> has_errors (body r)
                               then edges (body r) else []) lg)"




section \<open>Sample inputs\<close>

text \<open>Concrete library functions, servers and pages, used to run the drivers.\<close>

definition toy_lib :: "int lib" where
  "toy_lib = \<lparr>urljoin = (\<lambda>b h. b @ h), urlparse_path = drop 24,
              py_float = (\<lambda>s. if s \<noteq> [] \<and> list_all isdigit s
                                then Some (foldl (\<lambda>a c. 10 * a + digit_val c) 0 s) else None)\<rparr>"




definition not_found_pages :: "int \<Rightarrow> row list response" where
  "not_found_pages pg = \<lparr>status_code = 404, body = []\<rparr>"

definition forbidden_pages :: "int \<Rightarrow> card list response" where
  "forbidden_pages pg = \<lparr>status_code = 403, body = []\<rparr>"

definition failing_graphql :: "nat \<Rightarrow> gql_request \<Rightarrow> gql_body response" where
  "failing_graphql k rq =
     \<lparr>status_code = 500,
      body = \<lparr>has_errors = False, edges = [], hasNextPage = None, endCursor = None\<rparr>\<rparr>"

text \<open>A server whose only review has a text of one space.\<close>

definition blank_text_server :: "nat \<Rightarrow> gql_request \<Rightarrow> gql_body response" where
  "blank_text_server k rq =
     \<lparr>status_code = 200,
      body = \<lparr>has_errors = False,
               edges = [\<lparr>e_node = Some \<lparr>n_rid = Some ''r1'', n_text = Some '' '',
                                        n_rating = Some 5, n_date = Some ''2023-01-05''\<rparr>,
                         e_cursor = Some ''c1''\<rparr>],
               hasNextPage = Some False, endCursor = None\<rparr>\<rparr>"

definition toy_env :: "nat app_env" where
  "toy_env = \<lparr>to_datetime = parse_date, selected = ''Mar 2023'',
              clf = (\<lambda>ts. map (\<lambda>t. (''POSITIVE'', 1)) ts)\<rparr>"

definition toy_data :: "int data" where
  "toy_data = \<lparr>d_products = None, d_testimonials = None, d_reviews = None\<rparr>"







section \<open>Properties of the dashboard\<close>

subsection \<open>The month range\<close>

lemma strptime_bY_range:
  "strptime_bY s = Inr dt \<Longrightarrow>
     1 \<le> year dt \<and> year dt \<le> 9999 \<and> 1 \<le> month dt \<and> month dt \<le> 12 \<and> day dt = 1"
  by (auto simp: strptime_bY_def mk_date_def Let_def split: option.splits if_splits)

lemma month_range_general:
  assumes "strptime_bY label = Inr dt" and "year dt < 9999"
  shows "month_label_to_range label =
           Inr (first_of_month (year dt) (month dt), first_of_next_month (year dt) (month dt))"
  using assms strptime_bY_range[OF assms(1)]
  by (auto simp: month_label_to_range_def replace_ymd_def mk_date_def first_of_month_def
        first_of_next_month_def days_in_month_def)

text \<open>
  The range is half-open as the filter of the reviews view uses it: a date lies from the
  start on and before the end exactly when it is a date of that month.
\<close>

lemma month_range_half_open:
  assumes "1 \<le> m" and "m \<le> 12" and "1 \<le> day d" and "1 \<le> month d" and "month d \<le> 12"
  shows "(date_le (first_of_month y m) d \<and> date_lt d (first_of_next_month y m))
           = (year d = y \<and> month d = m)"
  using assms
  by (auto simp: date_le_def date_lt_def first_of_month_def first_of_next_month_def)

text \<open>
  Claim C3. \<open>month_label_to_range\<close> maps a month label to the pair of the first day of
  that month and the first day of the next month, for every label that \<open>strptime\<close>
  accepts before the year 9999; for \<open>Mar 2023\<close> it returns 2023-03-01 and 2023-04-01, and
  for \<open>Dec 2023\<close> it returns 2023-12-01 and 2024-01-01, the year rolled over.
\<close>

theorem month_label_to_range_correct:
  "(\<forall>label dt. strptime_bY label = Inr dt \<and> year dt < 9999 \<longrightarrow>
      month_label_to_range label =
        Inr (first_of_month (year dt) (month dt), first_of_next_month (year dt) (month dt)))
   \<and> month_label_to_range ''Mar 2023'' =
        Inr (\<lparr>year = 2023, month = 3, day = 1\<rparr>, \<lparr>year = 2023, month = 4, day = 1\<rparr>)
   \<and> month_label_to_range ''Dec 2023'' =
        Inr (\<lparr>year = 2023, month = 12, day = 1\<rparr>, \<lparr>year = 2024, month = 1, day = 1\<rparr>)"
proof (intro conjI allI impI)
  fix label dt
  assume "strptime_bY label = Inr dt \<and> year dt < 9999"
  then show "month_label_to_range label =
        Inr (first_of_month (year dt) (month dt), first_of_next_month (year dt) (month dt))"
    by (simp add: month_range_general)
next
  show "month_label_to_range ''Mar 2023'' =
        Inr (\<lparr>year = 2023, month = 3, day = 1\<rparr>, \<lparr>year = 2023, month = 4, day = 1\<rparr>)"
    by code_simp
next
  show "month_label_to_range ''Dec 2023'' =
        Inr (\<lparr>year = 2023, month = 12, day = 1\<rparr>, \<lparr>year = 2024, month = 1, day = 1\<rparr>)"
    by code_simp
qed

theorem month_label_to_range_correct_witness:
  "strptime_bY ''Jul 2023'' = Inr \<lparr>year = 2023, month = 7, day = 1\<rparr>
   \<and> month_label_to_range ''Jul 2023'' =
        Inr (\<lparr>year = 2023, month = 7, day = 1\<rparr>, \<lparr>year = 2023, month = 8, day = 1\<rparr>)"
proof -
  have h: "strptime_bY ''Jul 2023'' = Inr \<lparr>year = 2023, month = 7, day = 1\<rparr>"
    by code_simp
  from month_label_to_range_correct h
  have "month_label_to_range ''Jul 2023'' =
          Inr (first_of_month 2023 7, first_of_next_month 2023 7)"
    by force
  then show ?thesis using h by (simp add: first_of_month_def first_of_next_month_def)
qed

subsection \<open>Sentiment labels\<close>

text \<open>
  Claim C7. For every list of classifier outputs, the normalization of the labels maps
  \<open>POSITIVE\<close> to \<open>Positive\<close> and \<open>NEGATIVE\<close> to \<open>Negative\<close> and leaves every other label
  as it is.
\<close>

theorem normalize_sentiment_labels:
  "normalize_sentiment (map fst preds) =
     map (\<lambda>(label, score).
            if label = ''POSITIVE'' then ''Positive''
            else if label = ''NEGATIVE'' then ''Negative'' else label) preds"
  by (induction preds) (auto simp: normalize_sentiment_def fillna_def series_map_def)

section \<open>Properties of the scraper\<close>

subsection \<open>The snapshot\<close>

text \<open>
  Claim C8. Two runs of the snapshot assembly over the same upstream data give the same
  products, testimonials and reviews, as lists and so as sets; the snapshots differ in
  \<open>scraped_at\<close> only.
\<close>

theorem scrape_main_deterministic:
  "products (scrape_main L up t1) = products (scrape_main L up t2)
   \<and> testimonials (scrape_main L up t1) = testimonials (scrape_main L up t2)
   \<and> reviews (scrape_main L up t1) = reviews (scrape_main L up t2)
   \<and> set (products (scrape_main L up t1)) = set (products (scrape_main L up t2))
   \<and> set (testimonials (scrape_main L up t1)) = set (testimonials (scrape_main L up t2))
   \<and> set (reviews (scrape_main L up t1)) = set (reviews (scrape_main L up t2))
   \<and> scrape_main L up t2 = (scrape_main L up t1)\<lparr>scraped_at := t2\<rparr>"
  by (simp add: scrape_main_def)

subsection \<open>Missing keys of the snapshot\<close>

text \<open>
  Claim C10. When the loaded snapshot has no \<open>products\<close> key the Products view raises
  \<open>KeyError\<close>; when it has no \<open>testimonials\<close> key, or no \<open>reviews\<close> key, the view
  renders without an error exactly what it renders for the empty collection.
\<close>

theorem app_main_missing_keys:
  "(d_products dat = None \<longrightarrow> app_main E dat Products = Inl KeyError)
   \<and> (d_testimonials dat = None \<longrightarrow>
        app_main E (dat\<lparr>d_testimonials := Some []\<rparr>) Testimonials = app_main E dat Testimonials
        \<and> app_main E dat Testimonials =
            Inr [Title ''Brand Reputation Monitor (2023)'',
                 Caption ''Scraped from web-scraping.dev - Sentiment: Hugging Face Transformers'',
                 Subheader ''Testimonials''])
   \<and> (d_reviews dat = None \<longrightarrow>
        app_main E (dat\<lparr>d_reviews := Some []\<rparr>) Reviews = app_main E dat Reviews
        \<and> app_main E dat Reviews =
            Inr [Title ''Brand Reputation Monitor (2023)'',
                 Caption ''Scraped from web-scraping.dev - Sentiment: Hugging Face Transformers'',
                 Subheader ''Reviews (2023) + Sentiment Analysis'',
                 Warning ''No reviews found in data.json''])"
  by (simp add: app_main_def show_reviews_def)

theorem app_main_missing_keys_witness:
  "d_products toy_data = None \<and> d_testimonials toy_data = None \<and> d_reviews toy_data = None
   \<and> app_main toy_env toy_data Products = Inl KeyError
   \<and> app_main toy_env toy_data Testimonials =
        Inr [Title ''Brand Reputation Monitor (2023)'',
             Caption ''Scraped from web-scraping.dev - Sentiment: Hugging Face Transformers'',
             Subheader ''Testimonials'']
   \<and> app_main toy_env toy_data Reviews =
        Inr [Title ''Brand Reputation Monitor (2023)'',
             Caption ''Scraped from web-scraping.dev - Sentiment: Hugging Face Transformers'',
             Subheader ''Reviews (2023) + Sentiment Analysis'',
             Warning ''No reviews found in data.json'']"
proof -
  have h: "d_products toy_data = None \<and> d_testimonials toy_data = None
           \<and> d_reviews toy_data = None"
    by (simp add: toy_data_def)
  with app_main_missing_keys [of toy_data toy_env] show ?thesis
    by simp
qed

subsection \<open>Price cleaning\<close>



subsection \<open>Runs that collect nothing\<close>

lemma upto_from_1: "1 \<le> mp \<Longrightarrow> [1..mp] = 1 # [2..mp]"
  by (simp add: upto_rec1)

lemma upto_from_1_empty: "\<not> 1 \<le> mp \<Longrightarrow> [1..mp] = []"
  by simp

text \<open>
  Claim C9, as the code has it. When a run collects no testimonial (for one, when the first
  page has a status other than 200 or no card) \<open>scrape_testimonials_api\<close> returns the
  empty list, \<open>scrape_reviews_api\<close> does the same when it collects no review, and so does
  \<open>scrape_products_html\<close>.
\<close>

theorem empty_collection_returns_empty:
  "(testimonials_loop tget [1..mp] [] = [] \<longrightarrow> scrape_testimonials_api tget mp = [])
   \<and> (all_reviews (reviews_run post mp first) = [] \<longrightarrow> scrape_reviews_api post mp first = [])
   \<and> (status_code (tget 1) \<noteq> 200 \<or> body (tget 1) = [] \<longrightarrow> scrape_testimonials_api tget mp = [])
   \<and> (status_code (post 0 \<lparr>rq_first = first, rq_after = None\<rparr>) \<noteq> 200
        \<or> edges (body (post 0 \<lparr>rq_first = first, rq_after = None\<rparr>)) = []
        \<longrightarrow> scrape_reviews_api post mp first = [])
   \<and> (status_code (pget 1) \<noteq> 200 \<or> body (pget 1) = [] \<longrightarrow> scrape_products_html L pget mp = [])"
proof (intro conjI impI)
  assume "testimonials_loop tget [1..mp] [] = []"
  then show "scrape_testimonials_api tget mp = []"
    by (simp add: scrape_testimonials_api_def drop_duplicates_def)
next
  assume "all_reviews (reviews_run post mp first) = []"
  then show "scrape_reviews_api post mp first = []"
    by (simp add: scrape_reviews_api_def drop_duplicates_def)
next
  assume a: "status_code (tget 1) \<noteq> 200 \<or> body (tget 1) = []"
  have "testimonials_loop tget [1..mp] [] = []"
  proof (cases "1 \<le> mp")
    case True
    with a show ?thesis by (auto simp: upto_from_1 Let_def)
  next
    case False
    then show ?thesis by simp
  qed
  then show "scrape_testimonials_api tget mp = []"
    by (simp add: scrape_testimonials_api_def drop_duplicates_def)
next
  assume a: "status_code (post 0 \<lparr>rq_first = first, rq_after = None\<rparr>) \<noteq> 200
        \<or> edges (body (post 0 \<lparr>rq_first = first, rq_after = None\<rparr>)) = []"
  have "all_reviews (reviews_run post mp first) = []"
  proof (cases "nat mp")
    case 0
    then show ?thesis by (simp add: reviews_run_def)
  next
    case (Suc n)
    with a show ?thesis by (auto simp: reviews_run_def Let_def)
  qed
  then show "scrape_reviews_api post mp first = []"
    by (simp add: scrape_reviews_api_def drop_duplicates_def)
next
  assume a: "status_code (pget 1) \<noteq> 200 \<or> body (pget 1) = []"
  show "scrape_products_html L pget mp = []"
  proof (cases "1 \<le> mp")
    case True
    with a show ?thesis
      by (auto simp: scrape_products_html_def products_run_def upto_from_1 Let_def)
  next
    case False
    then show ?thesis by (simp add: scrape_products_html_def products_run_def)
  qed
qed

theorem empty_collection_returns_empty_witness:
  "testimonials_loop forbidden_pages [1..50] [] = []
   \<and> all_reviews (reviews_run failing_graphql 50 20) = []
   \<and> status_code (forbidden_pages 1) \<noteq> 200
   \<and> status_code (failing_graphql 0 \<lparr>rq_first = 20, rq_after = None\<rparr>) \<noteq> 200
   \<and> status_code (not_found_pages 1) \<noteq> 200
   \<and> scrape_testimonials_api forbidden_pages 50 = []
   \<and> scrape_reviews_api failing_graphql 50 20 = []
   \<and> scrape_products_html toy_lib not_found_pages 50 = []"
proof -
  have 1: "status_code (forbidden_pages 1) \<noteq> 200" by (simp add: forbidden_pages_def)
  have 2: "status_code (failing_graphql 0 \<lparr>rq_first = 20, rq_after = None\<rparr>) \<noteq> 200"
    by (simp add: failing_graphql_def)
  have 3: "status_code (not_found_pages 1) \<noteq> 200" by (simp add: not_found_pages_def)
  have 4: "testimonials_loop forbidden_pages [1..50] [] = []" by code_simp
  have 5: "all_reviews (reviews_run failing_graphql 50 20) = []" by code_simp
  from empty_collection_returns_empty [of forbidden_pages 50 failing_graphql 20 not_found_pages toy_lib]
    1 2 3 4 5
  show ?thesis by simp
qed

text \<open>
  The claim as it was stated, that the testimonial and the review driver raise in that
  case, fails on servers that refuse the first request: both drivers return the empty
  list.
\<close>

theorem empty_collection_counterexample:
  "scrape_testimonials_api forbidden_pages 50 = []
   \<and> scrape_reviews_api failing_graphql 50 20 = []"
  by code_simp

subsection \<open>Reviews with a blank text\<close>

text \<open>
  Claim C1, at an input where the code departs from it. The only edge has a date and a
  text of one space: the text passes the test \<open>not text\<close>, is stripped afterwards, and
  the returned record has the empty text.
\<close>

theorem scrape_reviews_api_blank_text:
  "scrape_reviews_api blank_text_server 50 20 =
     [\<lparr>rid = Some ''r1'', r_date = ''2023-01-05'', r_text = [], r_rating = Some 5\<rparr>]"
  by code_simp

subsection \<open>Deduplication of the reviews\<close>









lemma received_edges_snoc:
  "received_edges (lg @ [(rq, r)]) =
     received_edges lg @ (if status_code r = 200 \<and> \<not> has_errors (body r) then edges (body r) else [])"
  by (simp add: received_edges_def)

lemma reviews_loop_collects:
  "all_reviews st = concat (map scan_edge (received_edges (rs_log st))) \<Longrightarrow>
   all_reviews (reviews_loop post first n st) =
     concat (map scan_edge (received_edges (rs_log (reviews_loop post first n st))))"
proof (induction n arbitrary: st)
  case 0
  then show ?case by simp
next
  case (Suc n)
  define rq where "rq = \<lparr>rq_first = first, rq_after = cur_after st\<rparr>"
  define r where "r = post (length (rs_log st)) rq"
  show ?case
  proof (cases "status_code r \<noteq> 200 \<or> has_errors (body r) \<or> edges (body r) = []")
    case True
    then show ?thesis using Suc.prems
      by (auto simp: Let_def rq_def r_def received_edges_snoc)
  next
    case False
    define st2 where "st2 = st\<lparr>rs_log := rs_log st @ [(rq, r)],
       all_reviews := all_reviews st @ concat (map scan_edge (edges (body r)))\<rparr>"
    have inv: "all_reviews st2 = concat (map scan_edge (received_edges (rs_log st2)))"
      using False Suc.prems by (simp add: st2_def received_edges_snoc)
    show ?thesis
    proof (cases "hasNextPage (body r) = Some True")
      case True
      have "reviews_loop post first (Suc n) st =
              reviews_loop post first n (st2\<lparr>cur_after := next_after (body r)\<rparr>)"
        using False True by (simp add: Let_def rq_def r_def st2_def)
      moreover have "all_reviews (st2\<lparr>cur_after := next_after (body r)\<rparr>) =
          concat (map scan_edge (received_edges (rs_log (st2\<lparr>cur_after := next_after (body r)\<rparr>))))"
        using inv by simp
      ultimately show ?thesis using Suc.IH by simp
    next
      case nt: False
      have "reviews_loop post first (Suc n) st = st2"
        using False nt by (simp add: Let_def rq_def r_def st2_def)
      then show ?thesis using inv by simp
    qed
  qed
qed



subsection \<open>Pagination of the reviews\<close>








subsection \<open>Pagination of the products\<close>















subsection \<open>Dates of the reviews\<close>

text \<open>
  The stored date of a review is the ISO form of the date parsed, and parses to that
  date again.
\<close>

lemma digit_chr_props:
  assumes "0 \<le> n" and "n \<le> 9"
  shows "isdigit (digit_chr n) \<and> digit_val (digit_chr n) = n \<and> \<not> isspace (digit_chr n)
         \<and> digit_chr n \<noteq> CHR ''-''"
proof -
  have "\<forall>k\<in>set [0..9].
          isdigit (digit_chr k) \<and> digit_val (digit_chr k) = k \<and> \<not> isspace (digit_chr k)
          \<and> digit_chr k \<noteq> CHR ''-''"
    by code_simp
  moreover have "n \<in> set [0..9]" using assms by simp
  ultimately show ?thesis by blast
qed

lemma month_of_pad2: "1 \<le> m \<Longrightarrow> m \<le> 12 \<Longrightarrow> month_of (pad2 m) = Some m"
proof -
  assume "1 \<le> m" "m \<le> 12"
  then have "m \<in> set [1..12]" by simp
  moreover have "\<forall>k\<in>set [1..12]. month_of (pad2 k) = Some k"
    by code_simp
  ultimately show ?thesis by blast
qed

lemma day_of_pad2: "1 \<le> d \<Longrightarrow> d \<le> 31 \<Longrightarrow> day_of (pad2 d) = Some d"
proof -
  assume "1 \<le> d" "d \<le> 31"
  then have "d \<in> set [1..31]" by simp
  moreover have "\<forall>k\<in>set [1..31]. day_of (pad2 k) = Some k"
    by code_simp
  ultimately show ?thesis by blast
qed

lemma pad2_chars:
  assumes "0 \<le> n"
  shows "\<forall>c\<in>set (pad2 n). isdigit c \<and> \<not> isspace c \<and> c \<noteq> CHR ''-''"
proof -
  have a: "0 \<le> n div 10 mod 10" "n div 10 mod 10 \<le> 9" "0 \<le> n mod 10" "n mod 10 \<le> 9"
    using assms by simp_all
  show ?thesis
    using digit_chr_props[OF a(1) a(2)] digit_chr_props[OF a(3) a(4)]
    by (simp add: pad2_def)
qed


lemma four_digits:
  assumes "0 \<le> y" and "y \<le> 9999"
  shows "1000 * (y div 100 div 10 mod 10) + 100 * (y div 100 mod 10)
           + 10 * (y mod 100 div 10 mod 10) + y mod 100 mod 10 = (y::int)"
proof -
  define h where "h = y div 100"
  define l where "l = y mod 100"
  have y: "y = 100 * h + l" by (simp add: h_def l_def)
  have hb: "0 \<le> h" "h \<le> 99" using assms by (simp_all add: h_def)
  have lb: "0 \<le> l" "l < 100" by (simp_all add: l_def)
  have "h div 10 \<le> 9" using hb by simp
  moreover have "0 \<le> h div 10" using hb by simp
  ultimately have h1: "h div 10 mod 10 = h div 10" by simp
  have "l div 10 \<le> 9" using lb by simp
  moreover have "0 \<le> l div 10" using lb by simp
  ultimately have l1: "l div 10 mod 10 = l div 10" by simp
  have h2: "10 * (h div 10) + h mod 10 = h" by simp
  have l2: "10 * (l div 10) + l mod 10 = l" by simp
  have "1000 * (h div 10) + 100 * (h mod 10) + 10 * (l div 10) + l mod 10
          = 100 * (10 * (h div 10) + h mod 10) + (10 * (l div 10) + l mod 10)"
    by (simp only: distrib_left mult.assoc[symmetric])
  also have "\<dots> = y" by (simp only: h2 l2 y)
  finally show ?thesis by (simp only: h1 l1 h_def[symmetric] l_def[symmetric])
qed


lemma year_of_pads:
  assumes "0 \<le> y" and "y \<le> 9999"
  shows "year_of (pad2 (y div 100) @ pad2 (y mod 100)) = Some y"
proof -
  define a where "a = y div 100 div 10 mod 10"
  define b where "b = y div 100 mod 10"
  define c where "c = y mod 100 div 10 mod 10"
  define d where "d = y mod 100 mod 10"
  have r: "0 \<le> a" "a \<le> 9" "0 \<le> b" "b \<le> 9" "0 \<le> c" "c \<le> 9" "0 \<le> d" "d \<le> 9"
    by (simp_all add: a_def b_def c_def d_def)
  have s: "1000 * a + 100 * b + 10 * c + d = y"
    unfolding a_def b_def c_def d_def using assms by (rule four_digits)
  have p: "pad2 (y div 100) @ pad2 (y mod 100) = [digit_chr a, digit_chr b, digit_chr c, digit_chr d]"
    by (simp add: pad2_def a_def b_def c_def d_def)
  have da: "isdigit (digit_chr a)" "digit_val (digit_chr a) = a"
    using digit_chr_props[OF r(1) r(2)] by simp_all
  have db: "isdigit (digit_chr b)" "digit_val (digit_chr b) = b"
    using digit_chr_props[OF r(3) r(4)] by simp_all
  have dc: "isdigit (digit_chr c)" "digit_val (digit_chr c) = c"
    using digit_chr_props[OF r(5) r(6)] by simp_all
  have dd: "isdigit (digit_chr d)" "digit_val (digit_chr d) = d"
    using digit_chr_props[OF r(7) r(8)] by simp_all
  show ?thesis
    unfolding p year_of_def by (simp add: da db dc dd s)
qed


lemma mk_date_valid: "mk_date y m d = Inr dt \<Longrightarrow> valid_date dt"
  by (auto simp: mk_date_def valid_date_def split: if_splits)

lemma strptime_ymd_valid:
  assumes "strptime_ymd s = Inr dt"
  shows "valid_date dt"
proof -
  from assms obtain y m d where "mk_date y m d = Inr dt"
    unfolding strptime_ymd_def
    by (simp split: option.splits list.splits if_splits)
  then show ?thesis by (rule mk_date_valid)
qed

lemma parse_date_valid: "parse_date s = Some dt \<Longrightarrow> valid_date dt"
  by (auto simp: parse_date_def split: sum.splits dest: strptime_ymd_valid)

lemma days_in_month_le: "days_in_month y m \<le> 31"
  by (simp add: days_in_month_def)

lemma pad2_length: "length (pad2 n) = 2"
  by (simp add: pad2_def)

lemma takeWhile_pad2:
  assumes "0 \<le> n"
  shows "takeWhile (\<lambda>c. c \<noteq> CHR ''-'') (pad2 n @ CHR ''-'' # rest) = pad2 n"
    and "dropWhile (\<lambda>c. c \<noteq> CHR ''-'') (pad2 n @ CHR ''-'' # rest) = CHR ''-'' # rest"
  using pad2_chars[OF assms] by simp_all

lemma strptime_ymd_isoformat:
  assumes "valid_date dt"
  shows "strptime_ymd (isoformat dt) = Inr dt"
proof -
  from assms have y: "0 \<le> year dt" "year dt \<le> 9999" and m: "1 \<le> month dt" "month dt \<le> 12"
    and d: "1 \<le> day dt" "day dt \<le> 31"
    using days_in_month_le[of "year dt" "month dt"] by (auto simp: valid_date_def)
  define ys where "ys = pad2 (year dt div 100) @ pad2 (year dt mod 100)"
  have ly: "length ys = 4" by (simp add: ys_def pad2_length)
  have iso: "isoformat dt = ys @ CHR ''-'' # (pad2 (month dt) @ CHR ''-'' # pad2 (day dt))"
    by (simp add: isoformat_def ys_def)
  have t4: "take 4 (isoformat dt) = ys" and d4: "drop 4 (isoformat dt) =
      CHR ''-'' # (pad2 (month dt) @ CHR ''-'' # pad2 (day dt))"
    using ly by (simp_all add: iso)
  have yo: "year_of ys = Some (year dt)" unfolding ys_def using y by (rule year_of_pads)
  have m0: "0 \<le> month dt" using m by simp
  have mo: "month_of (pad2 (month dt)) = Some (month dt)" using m by (rule month_of_pad2)
  have do: "day_of (pad2 (day dt)) = Some (day dt)" using d by (rule day_of_pad2)
  have mk: "mk_date (year dt) (month dt) (day dt) = Inr dt"
    using assms by (simp add: mk_date_def valid_date_def)
  show ?thesis
    unfolding strptime_ymd_def t4 d4
    by (simp add: yo takeWhile_pad2[OF m0] mo do mk)
qed

lemma dropWhile_hd: "xs \<noteq> [] \<Longrightarrow> \<not> P (hd xs) \<Longrightarrow> dropWhile P xs = xs"
  by (cases xs) simp_all

lemma strip_isoformat:
  assumes "valid_date dt"
  shows "strip (isoformat dt) = isoformat dt"
proof -
  from assms have y: "0 \<le> year dt div 100" and d: "0 \<le> day dt"
    by (auto simp: valid_date_def)
  have f: "\<not> isspace (hd (isoformat dt))"
    using pad2_chars[OF y] by (simp add: isoformat_def pad2_def)
  have l: "\<not> isspace (last (isoformat dt))"
    using pad2_chars[OF d] by (simp add: isoformat_def pad2_def)
  have ne: "isoformat dt \<noteq> []" by (simp add: isoformat_def)
  have a: "dropWhile isspace (isoformat dt) = isoformat dt"
    using ne f by (rule dropWhile_hd)
  have "rev (isoformat dt) \<noteq> []" using ne by simp
  moreover have "\<not> isspace (hd (rev (isoformat dt)))" using ne l by (simp add: hd_rev)
  ultimately have b: "dropWhile isspace (rev (isoformat dt)) = rev (isoformat dt)"
    by (rule dropWhile_hd)
  show ?thesis by (simp add: strip_def a b)
qed

lemma parse_date_isoformat: "valid_date dt \<Longrightarrow> parse_date (isoformat dt) = Some dt"
  by (simp add: parse_date_def strip_isoformat strptime_ymd_isoformat)

lemma scan_edge_shape:
  "scan_edge e = [] \<or>
   (\<exists>d dt. parse_date d = Some dt \<and> map r_date (scan_edge e) = [isoformat dt])"
  by (simp add: scan_edge_def Let_def split: option.splits) blast

lemma scan_edge_record:
  assumes "r \<in> set (scan_edge e)"
  shows "\<exists>dt. parse_date (r_date r) = Some dt \<and> r_date r = isoformat dt"
proof -
  from assms have "scan_edge e \<noteq> []" by auto
  with scan_edge_shape[of e]
  have "\<exists>d dt. parse_date d = Some dt \<and> map r_date (scan_edge e) = [isoformat dt]"
    by simp
  then obtain d dt where p: "parse_date d = Some dt"
    and m: "map r_date (scan_edge e) = [isoformat dt]"
    by (elim exE conjE)
  from assms have "r_date r \<in> set (map r_date (scan_edge e))" by simp
  with m have "r_date r = isoformat dt" by simp
  moreover have "parse_date (isoformat dt) = Some dt"
    using p by (intro parse_date_isoformat parse_date_valid)
  ultimately show ?thesis by simp
qed

lemma keep_first_subset: "set (keep_first key seen xs) \<subseteq> set xs"
  by (induction xs arbitrary: seen) auto

lemma scrape_reviews_api_dates:
  assumes "r \<in> set (scrape_reviews_api post mp first)"
  shows "\<exists>dt. parse_date (r_date r) = Some dt \<and> r_date r = isoformat dt"
proof -
  from assms have "r \<in> set (all_reviews (reviews_run post mp first))"
    using keep_first_subset[of review_key "{}" "all_reviews (reviews_run post mp first)"]
    by (auto simp: scrape_reviews_api_def drop_duplicates_def split: if_splits)
  moreover have "all_reviews (reviews_run post mp first) =
       concat (map scan_edge (received_edges (rs_log (reviews_run post mp first))))"
    unfolding reviews_run_def
    by (rule reviews_loop_collects) (simp add: received_edges_def)
  ultimately obtain e where "r \<in> set (scan_edge e)" by auto
  then show ?thesis by (rule scan_edge_record)
qed

end
